theory Spec2Isabelle
  imports Main "HOL-Library.Word"
begin

section \<open>JavaScript values\<close>

text \<open>
  A JavaScript string is a sequence of UTF-16 code units and \<open>.length\<close> counts code
  units, so a string is a list of 16-bit words.
\<close>

type_synonym jsstring = "16 word list"

text \<open>
  The values a field of a parsed JSON body can have, with \<open>Undefined\<close> for a field that
  is missing. The handlers only ask \<open>typeof v === "string"\<close> and then read the string, so
  the payload of the other kinds is left out.
\<close>

datatype jsval = Undefined | Null | Boolean bool | Number | String jsstring | Array | Object

text \<open>
  \<open>String.prototype.trim\<close>: removes the leading and trailing code units that are
  WhiteSpace or LineTerminator in ECMAScript (all of them are in the basic plane).
\<close>

definition is_ws :: "16 word \<Rightarrow> bool" where
  "is_ws c \<longleftrightarrow>
     c = 0x09 \<or> c = 0x0A \<or> c = 0x0B \<or> c = 0x0C \<or> c = 0x0D \<or> c = 0x20 \<or> c = 0xA0 \<or>
     c = 0x1680 \<or> (0x2000 \<le> c \<and> c \<le> 0x200A) \<or> c = 0x2028 \<or> c = 0x2029 \<or>
     c = 0x202F \<or> c = 0x205F \<or> c = 0x3000 \<or> c = 0xFEFF"

definition trim :: "jsstring \<Rightarrow> jsstring" where
  "trim s = rev (dropWhile is_ws (rev (dropWhile is_ws s)))"

text \<open>\<open>Array.prototype.findIndex\<close>, with \<open>None\<close> for the result -1.\<close>

fun findIndex :: "('a \<Rightarrow> bool) \<Rightarrow> 'a list \<Rightarrow> nat option" where
  "findIndex P [] = None"
| "findIndex P (x # xs) =
     (if P x then Some 0 else (case findIndex P xs of None \<Rightarrow> None | Some k \<Rightarrow> Some (Suc k)))"

text \<open>\<open>items.splice(index, 1)\<close>: the array without the element at \<open>index\<close>.\<close>

definition splice1 :: "nat \<Rightarrow> 'a list \<Rightarrow> 'a list" where
  "splice1 index xs = take index xs @ drop (Suc index) xs"

section \<open>Data model\<close>

text \<open>
  An item of \<open>db.data.items\<close>: \<open>{ id, name, value, time }\<close>. The fields are prefixed
  because \<open>id\<close> and \<open>value\<close> are taken in Isabelle.
\<close>

record item =
  item_id :: jsstring
  item_name :: jsstring
  item_value :: jsstring
  item_time :: int

text \<open>
  The lowdb instance: \<open>data\<close> is \<open>db.data.items\<close> in memory, \<open>disk\<close> is the items
  array of \<open>db.json\<close> on disk, which exists from the setup on. \<open>db.read()\<close> replaces
  the data in memory by the file's, \<open>db.write()\<close> replaces the file by the data in
  memory.
\<close>

record db =
  data :: "item list"
  disk :: "item list"

definition db_read :: "db \<Rightarrow> db" where
  "db_read s = s\<lparr>data := disk s\<rparr>"

definition db_write :: "db \<Rightarrow> db" where
  "db_write s = s\<lparr>disk := data s\<rparr>"

text \<open>
  Database setup (lines 78-84): the default data is \<open>{ items: [] }\<close>; \<open>db.read()\<close>
  takes the file's data if the file exists; \<open>db.write()\<close> then creates or rewrites the
  file. The argument is the items array of \<open>db.json\<close> before the start, \<open>None\<close> when
  there is no file.
\<close>

definition db_setup :: "item list option \<Rightarrow> db" where
  "db_setup f = db_write \<lparr>data = (case f of None \<Rightarrow> [] | Some d \<Rightarrow> d), disk = []\<rparr>"

section \<open>API keys\<close>

record config =
  API_KEY :: jsstring
  READONLY_API_KEY :: "jsstring option"

text \<open>\<open>!key\<close> for a value that is a string or undefined: undefined and \<open>""\<close> are falsy.\<close>

definition falsy :: "jsstring option \<Rightarrow> bool" where
  "falsy k \<longleftrightarrow> (case k of None \<Rightarrow> True | Some s \<Rightarrow> s = [])"

text \<open>
  The start of the process (lines 30-40), from the two environment variables. A missing
  or short \<open>API_KEY\<close> ends the process with exit code 1. A missing or short
  \<open>READONLY_API_KEY\<close> prints the warning that read-only access is disabled
  (\<open>readonly_warning\<close>) and the process goes on with the variable as it is.
\<close>

datatype startup = Exit nat | Running config (readonly_warning: bool)

definition check_keys :: "jsstring option \<Rightarrow> jsstring option \<Rightarrow> startup" where
  "check_keys api ro =
     (case api of
        None \<Rightarrow> Exit 1
      | Some k \<Rightarrow>
          if k = [] \<or> length k < 20 then Exit 1
          else Running \<lparr>API_KEY = k, READONLY_API_KEY = ro\<rparr>
                 (falsy ro \<or> (case ro of None \<Rightarrow> False | Some r \<Rightarrow> length r < 10)))"

section \<open>Responses and authentication\<close>

datatype payload =
    Error string
  | Status string
  | SuccessItem item
  | SuccessRemoved item
  | SuccessDeleted nat
  | Items "item list"

record response =
  status :: nat
  json :: payload

datatype role = admin | readonly

text \<open>A middleware either answers the request itself or calls \<open>next()\<close> with \<open>req.apiRole\<close> set.\<close>

datatype gate = Reject response | Next role

definition requireReadKey :: "config \<Rightarrow> jsstring option \<Rightarrow> gate" where
  "requireReadKey cfg key =
     (if falsy key then Reject \<lparr>status = 401, json = Error ''API key required''\<rparr>
      else if key = Some (API_KEY cfg) then Next admin
      else if key = READONLY_API_KEY cfg then Next readonly
      else Reject \<lparr>status = 401, json = Error ''Unauthorized''\<rparr>)"

definition requireAdminKey :: "config \<Rightarrow> jsstring option \<Rightarrow> gate" where
  "requireAdminKey cfg key =
     (if falsy key \<or> key \<noteq> Some (API_KEY cfg)
      then Reject \<lparr>status = 401, json = Error ''Admin API key required''\<rparr>
      else Next admin)"

section \<open>Route handlers\<close>

text \<open>
  What a handler does that the outside can see, in the order of its statements:
  \<open>await db.read()\<close>, \<open>await db.write()\<close> with the items written to the file, and the
  response it sends (\<open>res.json\<close>, \<open>res.status(c).json\<close>). A handler is a function
  from the database to these events and the database it leaves.
\<close>

datatype event = DbRead | DbWrite "item list" | Sent response

text \<open>The two fields the handlers read from \<open>req.body\<close>.\<close>

record req_body =
  body_name :: jsval
  body_value :: jsval

text \<open>
  The guard of the create handler on one field:
  \<open>typeof v !== "string" || v.length < 1 || v.length > n\<close>.
\<close>

fun rejected :: "nat \<Rightarrow> jsval \<Rightarrow> bool" where
  "rejected n (String v) = (length v < 1 \<or> length v > n)"
| "rejected n _ = True"

text \<open>
  The guard of the update handler on one field:
  \<open>typeof v === "string" && v.length > 0 && v.length <= n\<close>.
\<close>

fun accepted :: "nat \<Rightarrow> jsval \<Rightarrow> bool" where
  "accepted n (String v) = (length v > 0 \<and> length v \<le> n)"
| "accepted n _ = False"

text \<open>\<open>v.trim()\<close>, called only on a value that passed one of the two guards.\<close>

fun trimmed :: "jsval \<Rightarrow> jsstring" where
  "trimmed (String v) = trim v"
| "trimmed _ = []"

text \<open>
  \<open>POST /tx\<close> (lines 93-115). \<open>uuid\<close> is what \<open>crypto.randomUUID()\<close> returns and
  \<open>now\<close> what \<open>Date.now()\<close> returns. There is no \<open>db.read()\<close> here: the item is pushed
  on the data in memory.
\<close>

definition post_tx :: "jsstring \<Rightarrow> int \<Rightarrow> req_body \<Rightarrow> db \<Rightarrow> event list \<times> db" where
  "post_tx uuid now b s =
     (if rejected 100 (body_name b)
      then ([Sent \<lparr>status = 400, json = Error ''Invalid name''\<rparr>], s)
      else if rejected 500 (body_value b)
      then ([Sent \<lparr>status = 400, json = Error ''Invalid value''\<rparr>], s)
      else
        let item = \<lparr>item_id = uuid, item_name = trimmed (body_name b),
                    item_value = trimmed (body_value b), item_time = now\<rparr>;
            s1 = s\<lparr>data := data s @ [item]\<rparr>;
            s2 = db_write s1
        in ([DbWrite (data s1), Sent \<lparr>status = 200, json = SuccessItem item\<rparr>], s2))"

text \<open>\<open>GET /rx\<close> (lines 118-121).\<close>

definition get_rx :: "db \<Rightarrow> event list \<times> db" where
  "get_rx s =
     (let s1 = db_read s
      in ([DbRead, Sent \<lparr>status = 200, json = Items (data s1)\<rparr>], s1))"

text \<open>\<open>GET /rx/:name\<close> (lines 124-131).\<close>

definition get_rx_name :: "jsstring \<Rightarrow> db \<Rightarrow> event list \<times> db" where
  "get_rx_name name s =
     (let s1 = db_read s;
          results = filter (\<lambda>i. item_name i = name) (data s1)
      in ([DbRead, Sent \<lparr>status = 200, json = Items results\<rparr>], s1))"

text \<open>
  \<open>PUT /tx/:id\<close> (lines 134-157). \<open>find\<close> returns the first element with the id, the
  object itself and not a copy, so the assignments to its fields change the element at
  that index of the array.
\<close>

definition put_tx :: "jsstring \<Rightarrow> int \<Rightarrow> req_body \<Rightarrow> db \<Rightarrow> event list \<times> db" where
  "put_tx id' now b s =
     (let s1 = db_read s in
      case findIndex (\<lambda>i. item_id i = id') (data s1) of
        None \<Rightarrow> ([DbRead, Sent \<lparr>status = 404, json = Error ''Item not found''\<rparr>], s1)
      | Some k \<Rightarrow>
          let item = data s1 ! k;
              item1 = (if accepted 100 (body_name b)
                       then item\<lparr>item_name := trimmed (body_name b)\<rparr> else item);
              item2 = (if accepted 500 (body_value b)
                       then item1\<lparr>item_value := trimmed (body_value b)\<rparr> else item1);
              item3 = item2\<lparr>item_time := now\<rparr>;
              s2 = s1\<lparr>data := (data s1)[k := item3]\<rparr>;
              s3 = db_write s2
          in ([DbRead, DbWrite (data s2), Sent \<lparr>status = 200, json = SuccessItem item3\<rparr>], s3))"

text \<open>\<open>DELETE /tx/:id\<close> (lines 160-174).\<close>

definition delete_tx_id :: "jsstring \<Rightarrow> db \<Rightarrow> event list \<times> db" where
  "delete_tx_id id' s =
     (let s1 = db_read s in
      case findIndex (\<lambda>i. item_id i = id') (data s1) of
        None \<Rightarrow> ([DbRead, Sent \<lparr>status = 404, json = Error ''Item not found''\<rparr>], s1)
      | Some index \<Rightarrow>
          let removed = data s1 ! index;
              s2 = s1\<lparr>data := splice1 index (data s1)\<rparr>;
              s3 = db_write s2
          in ([DbRead, DbWrite (data s2), Sent \<lparr>status = 200, json = SuccessRemoved removed\<rparr>],
              s3))"

text \<open>\<open>DELETE /tx\<close> (lines 177-185).\<close>

definition delete_tx :: "db \<Rightarrow> event list \<times> db" where
  "delete_tx s =
     (let s1 = db_read s;
          count = length (data s1);
          s2 = s1\<lparr>data := []\<rparr>;
          s3 = db_write s2
      in ([DbRead, DbWrite (data s2), Sent \<lparr>status = 200, json = SuccessDeleted count\<rparr>], s3))"

section \<open>The application\<close>

datatype route =
    GET_root
  | POST_tx req_body
  | GET_rx
  | GET_rx_name jsstring
  | PUT_tx_id jsstring req_body
  | DELETE_tx_id jsstring
  | DELETE_tx

text \<open>A request: the \<open>x-api-key\<close> header (\<open>None\<close> when it is not sent) and the route.\<close>

record request =
  x_api_key :: "jsstring option"
  route :: route

text \<open>
  A route with a middleware in front: a rejection is the only thing sent, and the
  handler runs only after \<open>next()\<close>.
\<close>

definition guarded :: "gate \<Rightarrow> (db \<Rightarrow> event list \<times> db) \<Rightarrow> db \<Rightarrow> event list \<times> db" where
  "guarded g handler s = (case g of Reject r \<Rightarrow> ([Sent r], s) | Next _ \<Rightarrow> handler s)"

text \<open>
  The routes as they are registered (lines 88-185). \<open>uuid\<close> and \<open>now\<close> are the
  values \<open>crypto.randomUUID()\<close> and \<open>Date.now()\<close> give while the request is served.
\<close>

definition app :: "config \<Rightarrow> jsstring \<Rightarrow> int \<Rightarrow> request \<Rightarrow> db \<Rightarrow> event list \<times> db" where
  "app cfg uuid now req s =
     (case route req of
        GET_root \<Rightarrow> ([Sent \<lparr>status = 200, json = Status ''ok, standby''\<rparr>], s)
      | POST_tx b \<Rightarrow> guarded (requireAdminKey cfg (x_api_key req)) (post_tx uuid now b) s
      | GET_rx \<Rightarrow> guarded (requireReadKey cfg (x_api_key req)) get_rx s
      | GET_rx_name name \<Rightarrow> guarded (requireReadKey cfg (x_api_key req)) (get_rx_name name) s
      | PUT_tx_id id' b \<Rightarrow> guarded (requireAdminKey cfg (x_api_key req)) (put_tx id' now b) s
      | DELETE_tx_id id' \<Rightarrow> guarded (requireAdminKey cfg (x_api_key req)) (delete_tx_id id') s
      | DELETE_tx \<Rightarrow> guarded (requireAdminKey cfg (x_api_key req)) delete_tx s)"

section \<open>Well-formed items\<close>

text \<open>
  The part of the bounds on a stored field that the handlers keep: at most \<open>n\<close> code
  units, and no whitespace at either end.
\<close>

definition trimmed_within :: "nat \<Rightarrow> jsstring \<Rightarrow> bool" where
  "trimmed_within n v \<longleftrightarrow> length v \<le> n \<and> (v \<noteq> [] \<longrightarrow> \<not> is_ws (hd v) \<and> \<not> is_ws (last v))"

definition item_ok :: "item \<Rightarrow> bool" where
  "item_ok i \<longleftrightarrow> trimmed_within 100 (item_name i) \<and> trimmed_within 500 (item_value i)"

section \<open>Example inputs\<close>

text \<open>
  The keys \<open>"admin-secret-key-000"\<close> (20 characters) and \<open>"reader-key"\<close> (10
  characters), two items and a database started on a file that holds them.
\<close>

definition example_admin_key :: jsstring where
  "example_admin_key =
     [0x61, 0x64, 0x6D, 0x69, 0x6E, 0x2D, 0x73, 0x65, 0x63, 0x72,
      0x65, 0x74, 0x2D, 0x6B, 0x65, 0x79, 0x2D, 0x30, 0x30, 0x30]"

definition example_reader_key :: jsstring where
  "example_reader_key = [0x72, 0x65, 0x61, 0x64, 0x65, 0x72, 0x2D, 0x6B, 0x65, 0x79]"

definition example_cfg :: config where
  "example_cfg = \<lparr>API_KEY = example_admin_key, READONLY_API_KEY = Some example_reader_key\<rparr>"

definition example_item1 :: item where
  "example_item1 = \<lparr>item_id = [0x31], item_name = [0x68, 0x6F, 0x73, 0x74],
     item_value = [0x31, 0x30, 0x2E, 0x30, 0x2E, 0x30, 0x2E, 0x31], item_time = 1000\<rparr>"

definition example_item2 :: item where
  "example_item2 = \<lparr>item_id = [0x32], item_name = [0x70, 0x6F, 0x72, 0x74],
     item_value = [0x38, 0x30], item_time = 2000\<rparr>"

definition example_db :: db where
  "example_db = db_setup (Some [example_item1, example_item2])"

lemmas example_defs = example_admin_key_def example_reader_key_def example_cfg_def
  example_item1_def example_item2_def example_db_def db_setup_def db_write_def db_read_def

section \<open>Strings and arrays\<close>

lemma length_trim: "length (trim s) \<le> length s"
proof -
  have "length (dropWhile is_ws (rev (dropWhile is_ws s))) \<le> length (dropWhile is_ws s)"
    using length_dropWhile_le [of is_ws "rev (dropWhile is_ws s)"] by simp
  also have "\<dots> \<le> length s"
    by (rule length_dropWhile_le)
  finally show ?thesis
    by (simp add: trim_def)
qed

lemma last_dropWhile_same: "dropWhile P xs \<noteq> [] \<Longrightarrow> last (dropWhile P xs) = last xs"
  by (induction xs) auto

lemma trim_no_trailing: "trim s \<noteq> [] \<Longrightarrow> \<not> is_ws (last (trim s))"
proof -
  assume ne: "trim s \<noteq> []"
  let ?t = "dropWhile is_ws (rev (dropWhile is_ws s))"
  from ne have "?t \<noteq> []" by (simp add: trim_def)
  then have "\<not> is_ws (hd ?t)" by (rule hd_dropWhile)
  moreover have "last (trim s) = hd ?t"
    using \<open>?t \<noteq> []\<close> by (simp add: trim_def last_rev)
  ultimately show ?thesis by simp
qed

lemma trim_no_leading: "trim s \<noteq> [] \<Longrightarrow> \<not> is_ws (hd (trim s))"
proof -
  assume ne: "trim s \<noteq> []"
  let ?u = "dropWhile is_ws s"
  let ?t = "dropWhile is_ws (rev ?u)"
  from ne have t: "?t \<noteq> []" by (simp add: trim_def)
  then have u: "?u \<noteq> []"
    by (metis dropWhile.simps(1) rev.simps(1))
  have "hd (trim s) = last ?t"
    using t by (simp add: trim_def hd_rev)
  also have "\<dots> = last (rev ?u)"
    using t by (rule last_dropWhile_same)
  also have "\<dots> = hd ?u"
    using u by (simp add: last_rev)
  finally show ?thesis
    using hd_dropWhile [OF u] by simp
qed

lemma findIndex_Some:
  "findIndex P xs = Some k \<Longrightarrow> k < length xs \<and> P (xs ! k) \<and> (\<forall>j<k. \<not> P (xs ! j))"
proof (induction xs arbitrary: k)
  case Nil
  then show ?case by simp
next
  case (Cons x xs)
  show ?case
  proof (cases "P x")
    case True
    with Cons.prems show ?thesis by simp
  next
    case False
    with Cons.prems obtain m where m: "findIndex P xs = Some m" "k = Suc m"
      by (auto split: option.splits)
    from Cons.IH [OF m(1)] False m(2) show ?thesis
      by (auto simp: less_Suc_eq_0_disj)
  qed
qed

lemma findIndex_None: "findIndex P xs = None \<longleftrightarrow> (\<forall>x\<in>set xs. \<not> P x)"
  by (induction xs) (auto split: option.splits)

lemma findIndex_distinct:
  "k < length xs \<Longrightarrow> distinct (map f xs) \<Longrightarrow> findIndex (\<lambda>i. f i = f (xs ! k)) xs = Some k"
proof (induction xs arbitrary: k)
  case Nil
  then show ?case by simp
next
  case (Cons x xs)
  show ?case
  proof (cases k)
    case 0
    then show ?thesis by simp
  next
    case (Suc m)
    with Cons.prems have m: "m < length xs" and d: "distinct (map f xs)"
      and "f x \<notin> f ` set xs" by auto
    then have "f x \<noteq> f (xs ! m)"
      by (metis imageI nth_mem)
    with Cons.IH [OF m d] Suc show ?thesis by simp
  qed
qed

lemma splice1_ids:
  assumes "k < length xs" "distinct (map f xs)"
  shows "f (xs ! k) \<notin> f ` set (splice1 k xs)"
proof -
  have "xs = take k xs @ xs ! k # drop (Suc k) xs"
    using assms(1) by (rule id_take_nth_drop)
  then have "distinct (map f (take k xs @ xs ! k # drop (Suc k) xs))"
    using assms(2) by simp
  then show ?thesis
    by (auto simp: splice1_def)
qed

lemma distinct_splice1:
  assumes "distinct (map f xs)"
  shows "distinct (map f (splice1 k xs))"
proof -
  let ?ys = "map f xs"
  have "distinct (take k ?ys @ drop k ?ys)"
    using assms by simp
  then have a: "distinct (take k ?ys)" and b: "set (take k ?ys) \<inter> set (drop k ?ys) = {}"
    by (simp_all only: distinct_append) 
  have c: "distinct (drop (Suc k) ?ys)"
    using assms by (rule distinct_drop)
  have "set (drop (Suc k) ?ys) \<subseteq> set (drop k ?ys)"
    by (rule set_drop_subset_set_drop) simp
  with b have "set (take k ?ys) \<inter> set (drop (Suc k) ?ys) = {}"
    by blast
  with a c have "distinct (take k ?ys @ drop (Suc k) ?ys)"
    by simp
  then show ?thesis
    by (simp add: splice1_def take_map drop_map)
qed

lemma accepted_trimmed:
  "accepted n v \<Longrightarrow> length (trimmed v) \<le> n \<and>
     (trimmed v \<noteq> [] \<longrightarrow> \<not> is_ws (hd (trimmed v)) \<and> \<not> is_ws (last (trimmed v)))"
  using length_trim trim_no_leading trim_no_trailing
  by (cases v) (auto intro: le_trans)

section \<open>What each handler does\<close>

text \<open>
  Each handler written out as the events it produces and the database it leaves, by
  the case of its guards. After \<open>db.read()\<close> the data in memory is the file's, so
  the handlers that read first depend on the file only.
\<close>

lemma rejected_iff: "rejected n v \<longleftrightarrow> (\<forall>x. v = String x \<longrightarrow> x = [] \<or> n < length x)"
  by (cases v) auto

lemma accepted_iff: "accepted n v \<longleftrightarrow> \<not> rejected n v"
  by (cases v) auto

lemma db_read_eq: "db_read s = \<lparr>data = disk s, disk = disk s\<rparr>"
  by (cases s) (simp add: db_read_def)

lemma post_tx_valid:
  assumes "\<not> rejected 100 (body_name b)" and "\<not> rejected 500 (body_value b)"
  shows "post_tx uuid now b s =
    ([DbWrite (data s @ [\<lparr>item_id = uuid, item_name = trimmed (body_name b),
                          item_value = trimmed (body_value b), item_time = now\<rparr>]),
      Sent \<lparr>status = 200, json = SuccessItem \<lparr>item_id = uuid, item_name = trimmed (body_name b),
                          item_value = trimmed (body_value b), item_time = now\<rparr>\<rparr>],
     \<lparr>data = data s @ [\<lparr>item_id = uuid, item_name = trimmed (body_name b),
                          item_value = trimmed (body_value b), item_time = now\<rparr>],
      disk = data s @ [\<lparr>item_id = uuid, item_name = trimmed (body_name b),
                          item_value = trimmed (body_value b), item_time = now\<rparr>]\<rparr>)"
  using assms by (cases s) (simp add: post_tx_def Let_def db_write_def)

lemma put_tx_found:
  assumes "findIndex (\<lambda>i. item_id i = x) (disk s) = Some k"
  shows "put_tx x now b s =
    ([DbRead,
      DbWrite ((disk s)[k := (disk s ! k)
         \<lparr>item_name := (if accepted 100 (body_name b) then trimmed (body_name b)
                         else item_name (disk s ! k)),
          item_value := (if accepted 500 (body_value b) then trimmed (body_value b)
                         else item_value (disk s ! k)),
          item_time := now\<rparr>]),
      Sent \<lparr>status = 200, json = SuccessItem ((disk s ! k)
         \<lparr>item_name := (if accepted 100 (body_name b) then trimmed (body_name b)
                         else item_name (disk s ! k)),
          item_value := (if accepted 500 (body_value b) then trimmed (body_value b)
                         else item_value (disk s ! k)),
          item_time := now\<rparr>)\<rparr>],
     \<lparr>data = (disk s)[k := (disk s ! k)
         \<lparr>item_name := (if accepted 100 (body_name b) then trimmed (body_name b)
                         else item_name (disk s ! k)),
          item_value := (if accepted 500 (body_value b) then trimmed (body_value b)
                         else item_value (disk s ! k)),
          item_time := now\<rparr>],
      disk = (disk s)[k := (disk s ! k)
         \<lparr>item_name := (if accepted 100 (body_name b) then trimmed (body_name b)
                         else item_name (disk s ! k)),
          item_value := (if accepted 500 (body_value b) then trimmed (body_value b)
                         else item_value (disk s ! k)),
          item_time := now\<rparr>]\<rparr>)"
  using assms by (cases s) (simp add: put_tx_def Let_def db_write_def db_read_def)

lemma put_tx_missing:
  assumes "findIndex (\<lambda>i. item_id i = x) (disk s) = None"
  shows "put_tx x now b s =
    ([DbRead, Sent \<lparr>status = 404, json = Error ''Item not found''\<rparr>],
     \<lparr>data = disk s, disk = disk s\<rparr>)"
  using assms by (cases s) (simp add: put_tx_def Let_def db_read_def)

lemma delete_tx_id_found:
  assumes "findIndex (\<lambda>i. item_id i = x) (disk s) = Some k"
  shows "delete_tx_id x s =
    ([DbRead, DbWrite (splice1 k (disk s)),
      Sent \<lparr>status = 200, json = SuccessRemoved (disk s ! k)\<rparr>],
     \<lparr>data = splice1 k (disk s), disk = splice1 k (disk s)\<rparr>)"
  using assms by (cases s) (simp add: delete_tx_id_def Let_def db_write_def db_read_def)

lemma delete_tx_id_missing:
  assumes "findIndex (\<lambda>i. item_id i = x) (disk s) = None"
  shows "delete_tx_id x s =
    ([DbRead, Sent \<lparr>status = 404, json = Error ''Item not found''\<rparr>],
     \<lparr>data = disk s, disk = disk s\<rparr>)"
  using assms by (cases s) (simp add: delete_tx_id_def Let_def db_read_def)

lemma delete_tx_eq:
  "delete_tx s = ([DbRead, DbWrite [], Sent \<lparr>status = 200, json = SuccessDeleted (length (disk s))\<rparr>],
     \<lparr>data = [], disk = []\<rparr>)"
  by (cases s) (simp add: delete_tx_def Let_def db_write_def db_read_def)

lemma get_rx_eq:
  "get_rx s = ([DbRead, Sent \<lparr>status = 200, json = Items (disk s)\<rparr>],
     \<lparr>data = disk s, disk = disk s\<rparr>)"
  by (cases s) (simp add: get_rx_def Let_def db_read_def)

lemma get_rx_name_eq:
  "get_rx_name n s =
     ([DbRead, Sent \<lparr>status = 200, json = Items (filter (\<lambda>i. item_name i = n) (disk s))\<rparr>],
      \<lparr>data = disk s, disk = disk s\<rparr>)"
  by (cases s) (simp add: get_rx_name_def Let_def db_read_def)

lemma guarded_Reject: "g = Reject r \<Longrightarrow> guarded g h s = ([Sent r], s)"
  by (simp add: guarded_def)

lemma guarded_Next: "g = Next r \<Longrightarrow> guarded g h s = h s"
  by (simp add: guarded_def)

lemma requireAdminKey_other:
  "key \<noteq> Some (API_KEY cfg) \<Longrightarrow>
   requireAdminKey cfg key = Reject \<lparr>status = 401, json = Error ''Admin API key required''\<rparr>"
  by (simp add: requireAdminKey_def)

lemma requireReadKey_other:
  "key \<noteq> Some (API_KEY cfg) \<Longrightarrow> key \<noteq> READONLY_API_KEY cfg \<Longrightarrow>
   requireReadKey cfg key =
     Reject \<lparr>status = 401,
             json = Error (if falsy key then ''API key required'' else ''Unauthorized'')\<rparr>"
  by (simp add: requireReadKey_def)

section \<open>Invariants of the running server\<close>

text \<open>
  After the setup and after every request the data in memory and the file agree, and
  the ids stay distinct as long as \<open>crypto.randomUUID()\<close> returns an id that is not
  in the database.
\<close>

lemma db_setup_in_sync: "disk (db_setup f) = data (db_setup f)"
  by (simp add: db_setup_def db_write_def)

lemma app_in_sync:
  assumes "disk s = data s"
  shows "disk (snd (app cfg uuid now req s)) = data (snd (app cfg uuid now req s))"
proof -
  have post: "disk (snd (post_tx uuid now b s)) = data (snd (post_tx uuid now b s))" for b
    using assms by (simp add: post_tx_def Let_def db_write_def)
  have put: "disk (snd (put_tx x now b s)) = data (snd (put_tx x now b s))" for x b
    by (cases "findIndex (\<lambda>i. item_id i = x) (disk s)")
       (simp_all add: put_tx_missing put_tx_found)
  have del: "disk (snd (delete_tx_id x s)) = data (snd (delete_tx_id x s))" for x
    by (cases "findIndex (\<lambda>i. item_id i = x) (disk s)")
       (simp_all add: delete_tx_id_missing delete_tx_id_found)
  show ?thesis
    using assms post put del
    by (simp add: app_def guarded_def delete_tx_eq get_rx_eq get_rx_name_eq
        split: route.splits gate.splits)
qed

lemma app_ids_distinct:
  assumes "disk s = data s" and "distinct (map item_id (data s))"
    and "uuid \<notin> item_id ` set (data s)"
  shows "distinct (map item_id (data (snd (app cfg uuid now req s))))"
proof -
  have post: "distinct (map item_id (data (snd (post_tx uuid now b s))))" for b
    using assms by (auto simp: post_tx_def Let_def db_write_def)
  have put: "distinct (map item_id (data (snd (put_tx x now b s))))" for x b
  proof (cases "findIndex (\<lambda>i. item_id i = x) (disk s)")
    case None
    then show ?thesis using assms by (simp add: put_tx_missing)
  next
    case (Some k)
    have "map item_id ((disk s)[k := it]) = map item_id (disk s)"
      if "item_id it = item_id (disk s ! k)" for it
      using that by (metis list_update_id map_update)
    then show ?thesis
      using assms by (simp add: put_tx_found [OF Some])
  qed
  have del: "distinct (map item_id (data (snd (delete_tx_id x s))))" for x
    using assms
    by (cases "findIndex (\<lambda>i. item_id i = x) (disk s)")
       (simp_all add: delete_tx_id_missing delete_tx_id_found distinct_splice1)
  show ?thesis
    using assms post put del
    by (simp add: app_def guarded_def delete_tx_eq get_rx_eq get_rx_name_eq
        split: route.splits gate.splits)
qed

text \<open>
  The stored fields stay within their upper bounds and trimmed. (The lower bound of one
  code unit is not kept, see C1.)
\<close>

lemma accepted_trimmed_within: "accepted n v \<Longrightarrow> trimmed_within n (trimmed v)"
  using accepted_trimmed [of n v] by (simp add: trimmed_within_def)

lemma set_splice1: "set (splice1 k xs) \<subseteq> set xs"
  unfolding splice1_def
  using set_take_subset [of k xs] set_drop_subset [of "Suc k" xs] by auto

lemma app_items_ok:
  assumes "disk s = data s" and "\<forall>i \<in> set (data s). item_ok i"
  shows "\<forall>i \<in> set (data (snd (app cfg uuid now req s))). item_ok i"
proof -
  have post: "\<forall>i \<in> set (data (snd (post_tx uuid now b s))). item_ok i" for b
    using assms(2)
    by (auto simp: post_tx_def Let_def db_write_def item_ok_def accepted_trimmed_within accepted_iff)
  have put: "\<forall>i \<in> set (data (snd (put_tx x now b s))). item_ok i" for x b
  proof (cases "findIndex (\<lambda>i. item_id i = x) (disk s)")
    case None
    then show ?thesis using assms by (simp add: put_tx_missing)
  next
    case (Some k)
    then have "k < length (disk s)"
      by (simp add: findIndex_Some)
    then have old: "item_ok (disk s ! k)"
      using assms by simp
    let ?new = "(disk s ! k)
         \<lparr>item_name := (if accepted 100 (body_name b) then trimmed (body_name b)
                         else item_name (disk s ! k)),
          item_value := (if accepted 500 (body_value b) then trimmed (body_value b)
                         else item_value (disk s ! k)),
          item_time := now\<rparr>"
    have new: "item_ok ?new"
      using old by (simp add: item_ok_def accepted_trimmed_within)
    have "set ((disk s)[k := ?new]) \<subseteq> insert ?new (set (disk s))"
      by (rule set_update_subset_insert)
    with new assms have "\<forall>i \<in> set ((disk s)[k := ?new]). item_ok i"
      by auto
    then show ?thesis
      by (simp add: put_tx_found [OF Some])
  qed
  have del: "\<forall>i \<in> set (data (snd (delete_tx_id x s))). item_ok i" for x
    using assms set_splice1 [of _ "disk s"]
    by (cases "findIndex (\<lambda>i. item_id i = x) (disk s)")
       (auto simp: delete_tx_id_missing delete_tx_id_found)
  show ?thesis
    using assms post put del
    by (simp add: app_def guarded_def delete_tx_eq get_rx_eq get_rx_name_eq
        split: route.splits gate.splits)
qed

section \<open>Stored fields and validation\<close>

text \<open>
  C1. The claim: every stored name is 1-100 characters long, every stored value 1-500,
  neither with leading or trailing whitespace. The create handler checks the length of
  the string it receives and stores the trimmed string, so a name of one space passes
  the check and is stored as the empty string. Here the request \<open>POST /tx\<close> with the
  admin key and the body \<open>{ name: " ", value: "x" }\<close> on an empty database: the item
  answered and written to the file has the name \<open>""\<close>.
\<close>

theorem create_blank_name_stores_empty_name:
  "app example_cfg uuid now
     \<lparr>x_api_key = Some example_admin_key,
      route = POST_tx \<lparr>body_name = String [0x20], body_value = String [0x78]\<rparr>\<rparr>
     (db_setup None) =
   ([DbWrite [\<lparr>item_id = uuid, item_name = [], item_value = [0x78], item_time = now\<rparr>],
     Sent \<lparr>status = 200, json = SuccessItem
       \<lparr>item_id = uuid, item_name = [], item_value = [0x78], item_time = now\<rparr>\<rparr>],
    \<lparr>data = [\<lparr>item_id = uuid, item_name = [], item_value = [0x78], item_time = now\<rparr>],
     disk = [\<lparr>item_id = uuid, item_name = [], item_value = [0x78], item_time = now\<rparr>]\<rparr>)"
  by (simp add: app_def guarded_def requireAdminKey_def falsy_def post_tx_def trim_def is_ws_def
      Let_def example_defs)

text \<open>
  C5. Create with a name that is missing, not a string, empty or longer than 100
  characters, or with such a value (bound 500), answers 400 with \<open>"Invalid name"\<close> or
  \<open>"Invalid value"\<close>, writes nothing and leaves the data in memory and the file as
  they are.
\<close>

theorem create_invalid_input_rejected:
  assumes "(\<forall>n. body_name b = String n \<longrightarrow> n = [] \<or> 100 < length n)
         \<or> (\<forall>v. body_value b = String v \<longrightarrow> v = [] \<or> 500 < length v)"
  shows "post_tx uuid now b s = ([Sent \<lparr>status = 400, json = Error ''Invalid name''\<rparr>], s)
       \<or> post_tx uuid now b s = ([Sent \<lparr>status = 400, json = Error ''Invalid value''\<rparr>], s)"
proof -
  from assms have "rejected 100 (body_name b) \<or> rejected 500 (body_value b)"
    by (simp only: rejected_iff)
  then show ?thesis
    by (auto simp: post_tx_def)
qed

theorem create_invalid_input_rejected_witness:
  "post_tx [0x33] 3000 \<lparr>body_name = String (replicate 101 0x61), body_value = String [0x62]\<rparr>
     example_db =
   ([Sent \<lparr>status = 400, json = Error ''Invalid name''\<rparr>], example_db)"
proof -
  have "post_tx [0x33] 3000 \<lparr>body_name = String (replicate 101 0x61), body_value = String [0x62]\<rparr>
     example_db \<noteq> ([Sent \<lparr>status = 400, json = Error ''Invalid value''\<rparr>], example_db)"
    by (simp add: post_tx_def)
  then show ?thesis
    using create_invalid_input_rejected
      [of "\<lparr>body_name = String (replicate 101 0x61), body_value = String [0x62]\<rparr>"
          "[0x33]" 3000 example_db]
    by simp
qed

section \<open>Create, update, delete\<close>




text \<open>
  C6. For the item at any index \<open>k\<close> of the document (ids distinct), update by its id
  answers 200 with the updated item and writes the document with that item replaced in
  place: the name becomes the trimmed supplied name when that is a string of 1-100 code
  units and stays as it was otherwise (no error), the same for the value with the bound
  500, the id stays and the time becomes \<open>Date.now()\<close>. With no value supplied the value is
  unchanged.
\<close>

theorem update_by_id_replaces_valid_fields:
  assumes "k < length (disk s)" and "distinct (map item_id (disk s))"
  shows "let old = disk s ! k;
             new = \<lparr>item_id = item_id old,
                    item_name = (case body_name b of
                       String n \<Rightarrow> if 1 \<le> length n \<and> length n \<le> 100 then trim n
                                   else item_name old
                     | _ \<Rightarrow> item_name old),
                    item_value = (case body_value b of
                       String v \<Rightarrow> if 1 \<le> length v \<and> length v \<le> 500 then trim v
                                   else item_value old
                     | _ \<Rightarrow> item_value old),
                    item_time = now\<rparr>;
             doc = (disk s)[k := new]
         in put_tx (item_id old) now b s =
              ([DbRead, DbWrite doc, Sent \<lparr>status = 200, json = SuccessItem new\<rparr>],
               \<lparr>data = doc, disk = doc\<rparr>)
          \<and> (body_value b = Undefined \<longrightarrow> item_value new = item_value old)"
proof -
  have found: "findIndex (\<lambda>i. item_id i = item_id (disk s ! k)) (disk s) = Some k"
    using assms by (rule findIndex_distinct)
  have name: "(if accepted 100 (body_name b) then trimmed (body_name b) else x) =
      (case body_name b of
         String n \<Rightarrow> if 1 \<le> length n \<and> length n \<le> 100 then trim n else x
       | _ \<Rightarrow> x)" for x
    by (cases "body_name b") (auto simp: Suc_le_eq)
  have val: "(if accepted 500 (body_value b) then trimmed (body_value b) else x) =
      (case body_value b of
         String v \<Rightarrow> if 1 \<le> length v \<and> length v \<le> 500 then trim v else x
       | _ \<Rightarrow> x)" for x
    by (cases "body_value b") (auto simp: Suc_le_eq)
  show ?thesis
    unfolding Let_def put_tx_found [OF found] name val
    by (cases "disk s ! k") simp
qed

theorem update_by_id_replaces_valid_fields_witness:
  "put_tx [0x32] 3000 \<lparr>body_name = String [0x20, 0x61], body_value = Undefined\<rparr> example_db =
     ([DbRead,
       DbWrite [example_item1, \<lparr>item_id = [0x32], item_name = [0x61], item_value = [0x38, 0x30],
                                item_time = 3000\<rparr>],
       Sent \<lparr>status = 200, json = SuccessItem \<lparr>item_id = [0x32], item_name = [0x61],
                                item_value = [0x38, 0x30], item_time = 3000\<rparr>\<rparr>],
      \<lparr>data = [example_item1, \<lparr>item_id = [0x32], item_name = [0x61], item_value = [0x38, 0x30],
                                item_time = 3000\<rparr>],
       disk = [example_item1, \<lparr>item_id = [0x32], item_name = [0x61], item_value = [0x38, 0x30],
                                item_time = 3000\<rparr>]\<rparr>)"
  using update_by_id_replaces_valid_fields [of 1 example_db "\<lparr>body_name = String [0x20, 0x61], body_value = Undefined\<rparr>" 3000]
  by (simp add: Let_def trim_def is_ws_def example_defs)

text \<open>
  C10. Update by the id of an item of the document with a body that has no valid field
  (each field missing, not a string, empty or too long) answers 200 with the item, whose
  name and value are unchanged and whose time is \<open>Date.now()\<close>, and writes the
  document to the file.
\<close>

theorem update_without_valid_fields_refreshes_time:
  assumes "k < length (disk s)" and "distinct (map item_id (disk s))"
    and "\<forall>n. body_name b = String n \<longrightarrow> n = [] \<or> 100 < length n"
    and "\<forall>v. body_value b = String v \<longrightarrow> v = [] \<or> 500 < length v"
  shows "let old = disk s ! k;
             doc = (disk s)[k := old\<lparr>item_time := now\<rparr>]
         in put_tx (item_id old) now b s =
              ([DbRead, DbWrite doc, Sent \<lparr>status = 200, json = SuccessItem (old\<lparr>item_time := now\<rparr>)\<rparr>],
               \<lparr>data = doc, disk = doc\<rparr>)"
proof -
  have found: "findIndex (\<lambda>i. item_id i = item_id (disk s ! k)) (disk s) = Some k"
    using assms(1,2) by (rule findIndex_distinct)
  have "\<not> accepted 100 (body_name b)" and "\<not> accepted 500 (body_value b)"
    using assms(3,4) by (simp_all only: accepted_iff rejected_iff not_not)
  then show ?thesis
    unfolding Let_def put_tx_found [OF found] by simp
qed

theorem update_without_valid_fields_refreshes_time_witness:
  "put_tx [0x31] 3000 \<lparr>body_name = Undefined, body_value = Undefined\<rparr> example_db =
     ([DbRead, DbWrite [example_item1\<lparr>item_time := 3000\<rparr>, example_item2],
       Sent \<lparr>status = 200, json = SuccessItem (example_item1\<lparr>item_time := 3000\<rparr>)\<rparr>],
      \<lparr>data = [example_item1\<lparr>item_time := 3000\<rparr>, example_item2],
       disk = [example_item1\<lparr>item_time := 3000\<rparr>, example_item2]\<rparr>)"
  using update_without_valid_fields_refreshes_time [of 0 example_db "\<lparr>body_name = Undefined, body_value = Undefined\<rparr>" 3000]
  by (simp add: Let_def example_defs)

text \<open>
  C7. Delete by the id of the item at index \<open>k\<close> of the document (ids distinct) removes
  the element at \<open>k\<close> and nothing else, writes the file and answers 200 with the removed
  item; the same request again answers 404 \<open>"Item not found"\<close> and leaves the document as
  it is.
\<close>

theorem delete_by_id_then_not_found:
  assumes "k < length (disk s)" and "distinct (map item_id (disk s))"
  shows "let x = disk s ! k;
             rest = take k (disk s) @ drop (Suc k) (disk s);
             s' = \<lparr>data = rest, disk = rest\<rparr>
         in delete_tx_id (item_id x) s =
              ([DbRead, DbWrite rest, Sent \<lparr>status = 200, json = SuccessRemoved x\<rparr>], s')
          \<and> delete_tx_id (item_id x) s' =
              ([DbRead, Sent \<lparr>status = 404, json = Error ''Item not found''\<rparr>], s')"
proof -
  let ?x = "disk s ! k"
  have found: "findIndex (\<lambda>i. item_id i = item_id ?x) (disk s) = Some k"
    using assms by (rule findIndex_distinct)
  have "item_id ?x \<notin> item_id ` set (splice1 k (disk s))"
    using assms by (rule splice1_ids)
  then have "\<forall>i \<in> set (splice1 k (disk s)). item_id i \<noteq> item_id ?x"
    by (metis imageI)
  then have gone: "findIndex (\<lambda>i. item_id i = item_id ?x)
      (disk \<lparr>data = splice1 k (disk s), disk = splice1 k (disk s)\<rparr>) = None"
    by (simp add: findIndex_None)
  show ?thesis
    using delete_tx_id_found [OF found] delete_tx_id_missing [OF gone]
    by (simp add: Let_def splice1_def)
qed

theorem delete_by_id_then_not_found_witness:
  "delete_tx_id [0x31] example_db =
     ([DbRead, DbWrite [example_item2], Sent \<lparr>status = 200, json = SuccessRemoved example_item1\<rparr>],
      \<lparr>data = [example_item2], disk = [example_item2]\<rparr>)
   \<and> delete_tx_id [0x31] \<lparr>data = [example_item2], disk = [example_item2]\<rparr> =
     ([DbRead, Sent \<lparr>status = 404, json = Error ''Item not found''\<rparr>],
      \<lparr>data = [example_item2], disk = [example_item2]\<rparr>)"
  using delete_by_id_then_not_found [of 0 example_db]
  by (simp add: Let_def example_defs)

section \<open>Authentication\<close>

text \<open>
  C2. The claim: with a read-only key that is absent or shorter than 10 characters, the
  read middleware lets a request pass only when its key is the admin key. With
  \<open>READONLY_API_KEY = "abc"\<close> the process starts and prints the warning that read-only
  access is disabled, and \<open>requireReadKey\<close> still lets the key \<open>"abc"\<close>, which is not
  the admin key, pass with the role readonly.
\<close>

theorem short_readonly_key_is_accepted:
  "check_keys (Some example_admin_key) (Some [0x61, 0x62, 0x63]) =
     Running \<lparr>API_KEY = example_admin_key, READONLY_API_KEY = Some [0x61, 0x62, 0x63]\<rparr> True
   \<and> requireReadKey \<lparr>API_KEY = example_admin_key, READONLY_API_KEY = Some [0x61, 0x62, 0x63]\<rparr>
       (Some [0x61, 0x62, 0x63]) = Next readonly
   \<and> [0x61, 0x62, 0x63] \<noteq> example_admin_key"
  by (simp add: check_keys_def requireReadKey_def falsy_def example_defs)

text \<open>
  C3, as the claim states it: a missing key and a wrong key get the same rejection with
  a message that does not tell them apart, on both middlewares. It fails on
  \<open>requireReadKey\<close>: no key is answered \<open>"API key required"\<close>, the wrong key \<open>"x"\<close> is
  answered \<open>"Unauthorized"\<close>.
\<close>

theorem read_gate_tells_missing_from_wrong:
  "requireReadKey example_cfg None =
     Reject \<lparr>status = 401, json = Error ''API key required''\<rparr>
   \<and> requireReadKey example_cfg (Some [0x78]) =
     Reject \<lparr>status = 401, json = Error ''Unauthorized''\<rparr>
   \<and> requireReadKey example_cfg None \<noteq> requireReadKey example_cfg (Some [0x78])"
  by (simp add: requireReadKey_def falsy_def example_defs)

text \<open>
  C3, amended: a missing key and a wrong key (neither the admin key nor the read-only
  key) are both rejected with status 401 by both middlewares. \<open>requireAdminKey\<close> gives
  the two the same response. \<open>requireReadKey\<close> answers \<open>"API key required"\<close> to a
  missing or empty key and \<open>"Unauthorized"\<close> to any other wrong key.
\<close>

theorem missing_and_wrong_key_rejected_401:
  assumes "key \<noteq> API_KEY cfg" and "READONLY_API_KEY cfg \<noteq> Some key"
  shows "requireAdminKey cfg None =
           Reject \<lparr>status = 401, json = Error ''Admin API key required''\<rparr>
    \<and> requireAdminKey cfg (Some key) = requireAdminKey cfg None
    \<and> requireReadKey cfg None = Reject \<lparr>status = 401, json = Error ''API key required''\<rparr>
    \<and> requireReadKey cfg (Some key) =
        Reject \<lparr>status = 401,
                json = Error (if key = [] then ''API key required'' else ''Unauthorized'')\<rparr>"
  using assms by (auto simp: requireAdminKey_def requireReadKey_def falsy_def)

theorem missing_and_wrong_key_rejected_401_witness:
  "[0x78] \<noteq> API_KEY example_cfg \<and> READONLY_API_KEY example_cfg \<noteq> Some [0x78]
   \<and> requireAdminKey example_cfg (Some [0x78]) = requireAdminKey example_cfg None
   \<and> requireReadKey example_cfg (Some [0x78]) =
       Reject \<lparr>status = 401, json = Error ''Unauthorized''\<rparr>"
  using missing_and_wrong_key_rejected_401 [of "[0x78]" example_cfg]
  by (simp add: example_defs)

text \<open>
  C8, as the claim states it: a request with the read-only key is rejected by the
  mutating routes. Nothing at the start compares the two keys. With
  \<open>READONLY_API_KEY\<close> equal to \<open>API_KEY\<close> the process starts without a warning and
  \<open>DELETE /tx\<close> with the read-only key deletes both items.
\<close>

theorem readonly_key_equal_to_admin_key_deletes_all:
  "check_keys (Some example_admin_key) (Some example_admin_key) =
     Running \<lparr>API_KEY = example_admin_key, READONLY_API_KEY = Some example_admin_key\<rparr> False
   \<and> app \<lparr>API_KEY = example_admin_key, READONLY_API_KEY = Some example_admin_key\<rparr> [0x33] 3000
       \<lparr>x_api_key = Some example_admin_key, route = DELETE_tx\<rparr> example_db =
     ([DbRead, DbWrite [], Sent \<lparr>status = 200, json = SuccessDeleted 2\<rparr>],
      \<lparr>data = [], disk = []\<rparr>)"
  by (simp add: check_keys_def falsy_def app_def guarded_def requireAdminKey_def delete_tx_eq
      example_defs)

text \<open>
  C8, amended: with a read-only key that is not empty and differs from the admin key, a
  request with the read-only key passes \<open>requireReadKey\<close> with the role readonly, so
  \<open>GET /rx\<close> and \<open>GET /rx/:name\<close> run their handlers, and is answered 401 with the
  database unchanged by \<open>POST /tx\<close>, \<open>PUT /tx/:id\<close>, \<open>DELETE /tx/:id\<close> and
  \<open>DELETE /tx\<close>. Every key other than the admin key is answered 401 by these four
  routes, and every key that is neither of the two keys is answered 401 by the two read
  routes.
\<close>

theorem readonly_key_reads_but_cannot_mutate:
  assumes "READONLY_API_KEY cfg = Some ro" and "ro \<noteq> []" and "ro \<noteq> API_KEY cfg"
  shows "requireReadKey cfg (Some ro) = Next readonly
    \<and> app cfg uuid now \<lparr>x_api_key = Some ro, route = GET_rx\<rparr> s = get_rx s
    \<and> app cfg uuid now \<lparr>x_api_key = Some ro, route = GET_rx_name n\<rparr> s = get_rx_name n s
    \<and> (\<forall>rt \<in> {POST_tx b, PUT_tx_id x b, DELETE_tx_id x, DELETE_tx}.
          app cfg uuid now \<lparr>x_api_key = Some ro, route = rt\<rparr> s =
            ([Sent \<lparr>status = 401, json = Error ''Admin API key required''\<rparr>], s))
    \<and> (\<forall>rt \<in> {POST_tx b, PUT_tx_id x b, DELETE_tx_id x, DELETE_tx}.
          key \<noteq> Some (API_KEY cfg) \<longrightarrow>
          app cfg uuid now \<lparr>x_api_key = key, route = rt\<rparr> s =
            ([Sent \<lparr>status = 401, json = Error ''Admin API key required''\<rparr>], s))
    \<and> (\<forall>rt \<in> {GET_rx, GET_rx_name n}.
          key \<noteq> Some (API_KEY cfg) \<and> key \<noteq> READONLY_API_KEY cfg \<longrightarrow>
          (\<exists>m. app cfg uuid now \<lparr>x_api_key = key, route = rt\<rparr> s =
            ([Sent \<lparr>status = 401, json = Error m\<rparr>], s)))"
proof -
  have ro: "requireReadKey cfg (Some ro) = Next readonly"
    using assms by (simp add: requireReadKey_def falsy_def)
  have adm: "requireAdminKey cfg (Some ro) =
      Reject \<lparr>status = 401, json = Error ''Admin API key required''\<rparr>"
    using assms(3) by (simp add: requireAdminKey_other)
  show ?thesis
    by (simp add: ro adm app_def guarded_def requireAdminKey_other requireReadKey_other)
qed

theorem readonly_key_reads_but_cannot_mutate_witness:
  "requireReadKey example_cfg (Some example_reader_key) = Next readonly
   \<and> app example_cfg [0x33] 3000 \<lparr>x_api_key = Some example_reader_key, route = GET_rx\<rparr> example_db =
       ([DbRead, Sent \<lparr>status = 200, json = Items [example_item1, example_item2]\<rparr>], example_db)
   \<and> app example_cfg [0x33] 3000 \<lparr>x_api_key = Some example_reader_key, route = DELETE_tx\<rparr>
       example_db =
       ([Sent \<lparr>status = 401, json = Error ''Admin API key required''\<rparr>], example_db)"
  using readonly_key_reads_but_cannot_mutate [of example_cfg example_reader_key "[0x33]" 3000 example_db
      "[0x68, 0x6F, 0x73, 0x74]" "\<lparr>body_name = String [0x61], body_value = String [0x62]\<rparr>"
      "[0x31]" None]
  by (simp add: get_rx_eq example_defs)

section \<open>Persistence\<close>

text \<open>
  C9. Whenever create, update, delete by id or delete all answers 200, the event just
  before the response is the write of the whole array, and the file holds that array
  afterwards; and the two read routes read the file first and answer from its content,
  whatever the data in memory was.
\<close>

theorem writes_precede_success_and_reads_reload:
  "(post_tx uuid now b s = ([Sent \<lparr>status = 400, json = Error ''Invalid name''\<rparr>], s)
    \<or> post_tx uuid now b s = ([Sent \<lparr>status = 400, json = Error ''Invalid value''\<rparr>], s)
    \<or> (\<exists>item. post_tx uuid now b s =
          ([DbWrite (data s @ [item]), Sent \<lparr>status = 200, json = SuccessItem item\<rparr>],
           \<lparr>data = data s @ [item], disk = data s @ [item]\<rparr>)))
  \<and> (put_tx x now b s =
        ([DbRead, Sent \<lparr>status = 404, json = Error ''Item not found''\<rparr>],
         \<lparr>data = disk s, disk = disk s\<rparr>)
    \<or> (\<exists>k item. put_tx x now b s =
          ([DbRead, DbWrite ((disk s)[k := item]), Sent \<lparr>status = 200, json = SuccessItem item\<rparr>],
           \<lparr>data = (disk s)[k := item], disk = (disk s)[k := item]\<rparr>)))
  \<and> (delete_tx_id x s =
        ([DbRead, Sent \<lparr>status = 404, json = Error ''Item not found''\<rparr>],
         \<lparr>data = disk s, disk = disk s\<rparr>)
    \<or> (\<exists>k. delete_tx_id x s =
          ([DbRead, DbWrite (take k (disk s) @ drop (Suc k) (disk s)),
            Sent \<lparr>status = 200, json = SuccessRemoved (disk s ! k)\<rparr>],
           \<lparr>data = take k (disk s) @ drop (Suc k) (disk s),
            disk = take k (disk s) @ drop (Suc k) (disk s)\<rparr>)))
  \<and> delete_tx s =
        ([DbRead, DbWrite [], Sent \<lparr>status = 200, json = SuccessDeleted (length (disk s))\<rparr>],
         \<lparr>data = [], disk = []\<rparr>)
  \<and> get_rx s =
        ([DbRead, Sent \<lparr>status = 200, json = Items (disk s)\<rparr>], \<lparr>data = disk s, disk = disk s\<rparr>)
  \<and> get_rx_name n s =
        ([DbRead, Sent \<lparr>status = 200, json = Items (filter (\<lambda>i. item_name i = n) (disk s))\<rparr>],
         \<lparr>data = disk s, disk = disk s\<rparr>)"
proof -
  have post: "post_tx uuid now b s = ([Sent \<lparr>status = 400, json = Error ''Invalid name''\<rparr>], s)
    \<or> post_tx uuid now b s = ([Sent \<lparr>status = 400, json = Error ''Invalid value''\<rparr>], s)
    \<or> (\<exists>item. post_tx uuid now b s =
          ([DbWrite (data s @ [item]), Sent \<lparr>status = 200, json = SuccessItem item\<rparr>],
           \<lparr>data = data s @ [item], disk = data s @ [item]\<rparr>))"
  proof (cases "rejected 100 (body_name b) \<or> rejected 500 (body_value b)")
    case True
    then show ?thesis by (auto simp: post_tx_def)
  next
    case False
    then show ?thesis by (simp add: post_tx_valid)
  qed
  have put: "put_tx x now b s =
        ([DbRead, Sent \<lparr>status = 404, json = Error ''Item not found''\<rparr>],
         \<lparr>data = disk s, disk = disk s\<rparr>)
    \<or> (\<exists>k item. put_tx x now b s =
          ([DbRead, DbWrite ((disk s)[k := item]), Sent \<lparr>status = 200, json = SuccessItem item\<rparr>],
           \<lparr>data = (disk s)[k := item], disk = (disk s)[k := item]\<rparr>))"
  proof (cases "findIndex (\<lambda>i. item_id i = x) (disk s)")
    case None
    then show ?thesis by (simp add: put_tx_missing)
  next
    case (Some k)
    show ?thesis
      unfolding put_tx_found [OF Some] by blast
  qed
  have del: "delete_tx_id x s =
        ([DbRead, Sent \<lparr>status = 404, json = Error ''Item not found''\<rparr>],
         \<lparr>data = disk s, disk = disk s\<rparr>)
    \<or> (\<exists>k. delete_tx_id x s =
          ([DbRead, DbWrite (take k (disk s) @ drop (Suc k) (disk s)),
            Sent \<lparr>status = 200, json = SuccessRemoved (disk s ! k)\<rparr>],
           \<lparr>data = take k (disk s) @ drop (Suc k) (disk s),
            disk = take k (disk s) @ drop (Suc k) (disk s)\<rparr>))"
  proof (cases "findIndex (\<lambda>i. item_id i = x) (disk s)")
    case None
    then show ?thesis by (simp add: delete_tx_id_missing)
  next
    case (Some k)
    show ?thesis
      unfolding delete_tx_id_found [OF Some] splice1_def by blast
  qed
  from post put del show ?thesis
    by (simp only: delete_tx_eq get_rx_eq get_rx_name_eq simp_thms)
qed


theorem writes_precede_success_and_reads_reload_witness:
  "put_tx [0x39] 3000 \<lparr>body_name = Undefined, body_value = Undefined\<rparr>
     \<lparr>data = [], disk = [example_item1]\<rparr> =
     ([DbRead, Sent \<lparr>status = 404, json = Error ''Item not found''\<rparr>],
      \<lparr>data = [example_item1], disk = [example_item1]\<rparr>)
   \<and> get_rx \<lparr>data = [], disk = [example_item1]\<rparr> =
     ([DbRead, Sent \<lparr>status = 200, json = Items [example_item1]\<rparr>],
      \<lparr>data = [example_item1], disk = [example_item1]\<rparr>)"
proof -
  have "put_tx [0x39] 3000 \<lparr>body_name = Undefined, body_value = Undefined\<rparr>
     \<lparr>data = [], disk = [example_item1]\<rparr> \<noteq>
     ([DbRead, DbWrite d, Sent r], t)" for d r t
    by (simp add: put_tx_def example_defs)
  then show ?thesis
    using writes_precede_success_and_reads_reload [of "[0x33]" 3000 "\<lparr>body_name = Undefined, body_value = Undefined\<rparr>"
        "\<lparr>data = [], disk = [example_item1]\<rparr>" "[0x39]" "[]"]
    by simp
qed

end
